theory Spec2Isabelle
  imports Main "HOL-Library.Monad_Syntax" "HOL-Library.Sublist"
begin

section \<open>Go values used by the wallet lifecycle code\<close>

text \<open>
  A Go \<^verbatim>\<open>string\<close> is a sequence of bytes, here a \<^typ>\<open>string\<close> (a list of 8-bit
  characters). A Go \<^verbatim>\<open>error\<close> value is \<^verbatim>\<open>nil\<close> or an error, here an
  \<open>error option\<close> with \<open>None\<close> for \<^verbatim>\<open>nil\<close>. The errors of the code are built by
  \<^verbatim>\<open>fmt.Errorf\<close> (a message), returned by the wallet middleware or the prompter (a
  message too), or are the error of a cancelled context.
\<close>

datatype error = ErrorString string | Canceled | DeadlineExceeded

text \<open>The method \<^verbatim>\<open>Error()\<close> of an error: its message.\<close>

definition Error :: "error \<Rightarrow> string" where
  "Error err =
     (case err of
        ErrorString msg \<Rightarrow> msg
      | Canceled \<Rightarrow> ''context canceled''
      | DeadlineExceeded \<Rightarrow> ''context deadline exceeded'')"

subsection \<open>The functions of package strings that the validators call\<close>

definition dquote :: char where
  "dquote = CHR 0x22"

text \<open>
  \<^verbatim>\<open>unicode.IsSpace\<close> holds of the runes U+0009..U+000D, U+0020, U+0085, U+00A0, U+1680,
  U+2000..U+200A, U+2028, U+2029, U+202F, U+205F and U+3000. On bytes, a string starts
  (ends) with such a rune exactly when it starts (ends) with the rune's UTF-8 encoding.
\<close>

definition space_encodings :: "string list" where
  "space_encodings =
     [[CHR 0x09], [CHR 0x0A], [CHR 0x0B], [CHR 0x0C], [CHR 0x0D], [CHR 0x20],
      [CHR 0xC2, CHR 0x85], [CHR 0xC2, CHR 0xA0],
      [CHR 0xE1, CHR 0x9A, CHR 0x80],
      [CHR 0xE2, CHR 0x80, CHR 0x80], [CHR 0xE2, CHR 0x80, CHR 0x81],
      [CHR 0xE2, CHR 0x80, CHR 0x82], [CHR 0xE2, CHR 0x80, CHR 0x83],
      [CHR 0xE2, CHR 0x80, CHR 0x84], [CHR 0xE2, CHR 0x80, CHR 0x85],
      [CHR 0xE2, CHR 0x80, CHR 0x86], [CHR 0xE2, CHR 0x80, CHR 0x87],
      [CHR 0xE2, CHR 0x80, CHR 0x88], [CHR 0xE2, CHR 0x80, CHR 0x89],
      [CHR 0xE2, CHR 0x80, CHR 0x8A],
      [CHR 0xE2, CHR 0x80, CHR 0xA8], [CHR 0xE2, CHR 0x80, CHR 0xA9],
      [CHR 0xE2, CHR 0x80, CHR 0xAF],
      [CHR 0xE2, CHR 0x81, CHR 0x9F],
      [CHR 0xE3, CHR 0x80, CHR 0x80]]"

definition has_prefix :: "string \<Rightarrow> string \<Rightarrow> bool" where
  "has_prefix s e = (take (length e) s = e)"

definition has_suffix :: "string \<Rightarrow> string \<Rightarrow> bool" where
  "has_suffix s e = (length e \<le> length s \<and> drop (length s - length e) s = e)"

text \<open>The byte width of a white-space rune at the front (at the back), 0 when there is none.\<close>

definition leading_space :: "string \<Rightarrow> nat" where
  "leading_space s =
     (case List.find (has_prefix s) space_encodings of None \<Rightarrow> 0 | Some e \<Rightarrow> length e)"

definition trailing_space :: "string \<Rightarrow> nat" where
  "trailing_space s =
     (case List.find (has_suffix s) space_encodings of None \<Rightarrow> 0 | Some e \<Rightarrow> length e)"

text \<open>
  \<^verbatim>\<open>strings.TrimLeftFunc(s, unicode.IsSpace)\<close> and its right-hand twin: the loops that
  drop one white-space rune after the other. The fuel is the number of bytes left, which
  bounds the number of runes.
\<close>

fun trim_left_loop :: "nat \<Rightarrow> string \<Rightarrow> string" where
  "trim_left_loop 0 s = s"
| "trim_left_loop (Suc n) s =
     (if leading_space s = 0 then s else trim_left_loop n (drop (leading_space s) s))"

fun trim_right_loop :: "nat \<Rightarrow> string \<Rightarrow> string" where
  "trim_right_loop 0 s = s"
| "trim_right_loop (Suc n) s =
     (if trailing_space s = 0 then s
      else trim_right_loop n (take (length s - trailing_space s) s))"

definition TrimSpace :: "string \<Rightarrow> string" where
  "TrimSpace s =
     (let l = trim_left_loop (length s) s in trim_right_loop (length l) l)"

text \<open>
  \<^verbatim>\<open>strings.Trim(s, cutset)\<close> for a cutset of one ASCII byte, as both validators call it:
  every leading and every trailing occurrence of the byte is removed.
\<close>

definition Trim :: "string \<Rightarrow> char \<Rightarrow> string" where
  "Trim s c = rev (dropWhile (\<lambda>x. x = c) (rev (dropWhile (\<lambda>x. x = c) s)))"

text \<open>
  \<^verbatim>\<open>strings.EqualFold(s, t)\<close> compares rune by rune under Unicode simple case folding.
  Every call of the code passes an ASCII literal as \<open>s\<close>, and the model is for such an
  \<open>s\<close>: an ASCII letter equals itself and its other case, \<open>K\<close> and \<open>k\<close> also equal the
  Kelvin sign U+212A, \<open>S\<close> and \<open>s\<close> also the long s U+017F, and any other ASCII byte
  equals only itself. \<open>fold_orbit c\<close> lists the UTF-8 encodings of the runes equal to \<open>c\<close>.
\<close>

definition upper_letters :: string where
  "upper_letters = ''ABCDEFGHIJKLMNOPQRSTUVWXYZ''"

definition lower_letters :: string where
  "lower_letters = ''abcdefghijklmnopqrstuvwxyz''"

definition fold_extra :: "char \<Rightarrow> string list" where
  "fold_extra l =
     (if l = CHR ''k'' then [[CHR 0xE2, CHR 0x84, CHR 0xAA]]
      else if l = CHR ''s'' then [[CHR 0xC5, CHR 0xBF]]
      else [])"

definition fold_orbit :: "char \<Rightarrow> string list" where
  "fold_orbit c =
     (case map_of (zip upper_letters lower_letters) c of
        Some l \<Rightarrow> [[c], [l]] @ fold_extra l
      | None \<Rightarrow>
          (case map_of (zip lower_letters upper_letters) c of
             Some u \<Rightarrow> [[c], [u]] @ fold_extra c
           | None \<Rightarrow> [[c]]))"

fun EqualFold :: "string \<Rightarrow> string \<Rightarrow> bool" where
  "EqualFold [] t = (t = [])"
| "EqualFold (c # cs) t =
     (case List.find (has_prefix t) (fold_orbit c) of
        None \<Rightarrow> False
      | Some e \<Rightarrow> EqualFold cs (drop (length e) t))"

subsection \<open>The two validators of the wallet code\<close>

type_synonym validator = "string \<Rightarrow> error option"

text \<open>\<^verbatim>\<open>backupValidator\<close>, the closure of \<^verbatim>\<open>createWallet\<close>.\<close>

definition backupValidator :: validator where
  "backupValidator userResponse =
     (let r1 = TrimSpace userResponse;
          r2 = Trim r1 dquote
      in if EqualFold ''OK'' r2 then None
         else Some (ErrorString ''invalid response, try again''))"

text \<open>\<^verbatim>\<open>validateUserResponse\<close>, the closure of \<^verbatim>\<open>attemptToCreateWallet\<close>.\<close>

definition validateUserResponse :: validator where
  "validateUserResponse userResponse =
     (let r1 = TrimSpace userResponse;
          r2 = Trim r1 dquote
      in if r2 = [] \<or> EqualFold ''y'' r2 \<or> EqualFold ''N'' r2 then None
         else Some (ErrorString ''invalid option, try again''))"

section \<open>The collaborators of the wallet lifecycle code\<close>

subsection \<open>The wallet middleware\<close>

text \<open>
  \<^verbatim>\<open>app.WalletMiddleware\<close> is an interface; the wallet engine behind it is not part of the
  program. The model takes it as an environment: for each method, what the call answers,
  given the calls made before (so an engine with state is covered), and after how long. A
  call may never return: \<^verbatim>\<open>openWallet\<close>'s comment says the existence check may stall while
  another instance holds the wallet.
\<close>

datatype call =
    CWalletExists
  | COpenWallet
  | CGenerateNewWalletSeed
  | CCreateWallet string string
  | CSyncBlockChain bool

datatype 'a reply = Reply nat 'a | Stall

text \<open>
  What a call of \<^verbatim>\<open>SyncBlockChain(listener, rescan)\<close> does that the code can see: the call
  returns an error or \<^verbatim>\<open>nil\<close> (\<open>returned\<close>), and the engine calls \<^verbatim>\<open>listener.SyncEnded(err)\<close>
  at some time or never (\<open>ended\<close>). Both delays count from the start of the call. The other
  four slots of the listener are empty functions or print a line.
\<close>

record sync_run =
  returned :: "error option reply"
  ended :: "error option reply"

record middleware =
  WalletExists :: "call list \<Rightarrow> (error + bool) reply"
  OpenWallet :: "call list \<Rightarrow> error option reply"
  GenerateNewWalletSeed :: "call list \<Rightarrow> (error + string) reply"
  CreateWallet :: "call list \<Rightarrow> string \<Rightarrow> string \<Rightarrow> error option reply"
  SyncBlockChain :: "call list \<Rightarrow> bool \<Rightarrow> sync_run"

subsection \<open>The world the code runs in\<close>

text \<open>
  \<open>clock\<close> is the logical time, advanced by the middleware calls; \<open>stdin\<close> is what the
  terminal will deliver, one item for each read of the prompter; \<open>shown\<close> lists the
  prompts displayed and \<open>displayed\<close> the seeds displayed; \<open>calls\<close> lists the middleware
  calls started so far, in order; \<open>coin\<close> is the choice of the Go runtime when both cases
  of a \<^verbatim>\<open>select\<close> are ready at once (\<open>True\<close>: the \<^verbatim>\<open>ctx.Done()\<close> case). Lines printed
  with \<^verbatim>\<open>fmt\<close> do not change the control flow and are left out. Only the order of the
  cancellation and of the two \<^verbatim>\<open>select\<close> statements matters, so the time the user takes
  to type is not counted.
\<close>

datatype input = Line string | ReadFails error

record world =
  clock :: nat
  stdin :: "input list"
  shown :: "string list"
  displayed :: "string list"
  calls :: "call list"
  coin :: bool

text \<open>
  A \<^verbatim>\<open>context.Context\<close>: the time at which \<^verbatim>\<open>ctx.Done()\<close> is closed, if ever, and the
  error \<^verbatim>\<open>ctx.Err()\<close> returns from then on.
\<close>

record Context =
  done_at :: "nat option"
  reason :: error

text \<open>
  A function that may wait forever returns an option, \<open>None\<close> for "never returns". A call
  of the middleware from the running goroutine: the clock advances by the delay of the
  answer, and the call is recorded.
\<close>

definition call_mw :: "'a reply \<Rightarrow> call \<Rightarrow> world \<Rightarrow> ('a \<times> world) option" where
  "call_mw r c w =
     (case r of
        Stall \<Rightarrow> None
      | Reply d v \<Rightarrow> Some (v, w\<lparr>clock := clock w + d, calls := calls w @ [c]\<rparr>))"

subsection \<open>The prompter\<close>

text \<open>
  Modelled from the spec: package \<^verbatim>\<open>terminalprompt\<close> (\<^verbatim>\<open>RequestInput\<close>,
  \<^verbatim>\<open>RequestInputSecure\<close>, \<^verbatim>\<open>EmptyValidator\<close>) is not among the source files. The spec
  gives \<^verbatim>\<open>RequestInput(prompt, validator) \<rightarrow> (string, error)\<close>, with a secure variant that
  differs in the echo only; the validator maps a candidate string to acceptance or a
  rejection reason, and on rejection the prompt repeats. An item of \<open>stdin\<close> is the
  candidate the prompter hands to the validator, or a failed read. When the terminal
  delivers nothing more, the prompter waits forever. The count is the number of times the
  prompt was displayed.
\<close>

fun prompt_loop ::
  "validator \<Rightarrow> input list \<Rightarrow> nat \<Rightarrow> ((error + string) \<times> input list \<times> nat) option" where
  "prompt_loop v [] n = None"
| "prompt_loop v (ReadFails e # rest) n = Some (Inl e, rest, Suc n)"
| "prompt_loop v (Line l # rest) n =
     (case v l of
        None \<Rightarrow> Some (Inr l, rest, Suc n)
      | Some reject \<Rightarrow> prompt_loop v rest (Suc n))"

definition RequestInput ::
  "string \<Rightarrow> validator \<Rightarrow> world \<Rightarrow> ((error + string) \<times> world) option" where
  "RequestInput message v w =
     (case prompt_loop v (stdin w) 0 of
        None \<Rightarrow> None
      | Some (r, rest, n) \<Rightarrow>
          Some (r, w\<lparr>stdin := rest, shown := shown w @ replicate n message\<rparr>))"

definition RequestInputSecure ::
  "string \<Rightarrow> validator \<Rightarrow> world \<Rightarrow> ((error + string) \<times> world) option" where
  "RequestInputSecure message v w = RequestInput message v w"

text \<open>
  Modelled from the spec: \<^verbatim>\<open>terminalprompt.EmptyValidator\<close>, with which \<^verbatim>\<open>createWallet\<close>
  asks for "a non-empty passphrase": the empty candidate is rejected, every other one
  accepted. The text of the rejection is not in the spec; the prompter drops it.
\<close>

definition EmptyValidator :: validator where
  "EmptyValidator input = (if input = [] then Some (ErrorString ''empty input'') else None)"

text \<open>
  Modelled from the spec: \<^verbatim>\<open>displayWalletSeed\<close> is not among the source files; the spec
  says the seed is displayed to the user.
\<close>

definition displayWalletSeed :: "string \<Rightarrow> world \<Rightarrow> world" where
  "displayWalletSeed seed w = w\<lparr>displayed := displayed w @ [seed]\<rparr>"

section \<open>The wallet lifecycle code\<close>

subsection \<open>Waiting for the first of two events\<close>

text \<open>
  Both \<^verbatim>\<open>select\<close> statements of the code wait for \<^verbatim>\<open>ctx.Done()\<close> and for one message of
  a goroutine started just before. \<open>task\<close> is the time at which that message is ready, if
  ever. The case that is ready first is taken; when both are ready at once the runtime
  chooses; when neither ever is, the \<^verbatim>\<open>select\<close> waits forever.
\<close>

datatype winner = CtxDone | TaskDone

definition select_first ::
  "Context \<Rightarrow> bool \<Rightarrow> nat \<Rightarrow> nat option \<Rightarrow> (winner \<times> nat) option" where
  "select_first ctx pick now task =
     (case (done_at ctx, task) of
        (None, None) \<Rightarrow> None
      | (Some c, None) \<Rightarrow> Some (CtxDone, max c now)
      | (None, Some d) \<Rightarrow> Some (TaskDone, d)
      | (Some c, Some d) \<Rightarrow>
          (if max c now < d then Some (CtxDone, max c now)
           else if d < max c now then Some (TaskDone, d)
           else Some (if pick then CtxDone else TaskDone, d)))"

subsection \<open>syncBlockChain\<close>

text \<open>
  The values sent on \<^verbatim>\<open>syncDone\<close>, each with the delay after which its sender is ready:
  \<^verbatim>\<open>SyncEnded\<close> sends its argument, and the goroutine sends the error of a middleware call
  that returned one. The channel has no buffer, so the \<^verbatim>\<open>select\<close> receives from the sender
  that is ready first (the callback, when it ran inside a call that then returned an
  error at the same tick).
\<close>

definition sync_sends :: "sync_run \<Rightarrow> (nat \<times> error option) list" where
  "sync_sends run =
     (case ended run of Reply te e \<Rightarrow> [(te, e)] | Stall \<Rightarrow> [])
     @ (case returned run of Reply tr (Some e) \<Rightarrow> [(tr, Some e)] | _ \<Rightarrow> [])"

fun first_send :: "(nat \<times> 'a) list \<Rightarrow> (nat \<times> 'a) option" where
  "first_send [] = None"
| "first_send ((t, v) # rest) =
     (case first_send rest of
        None \<Rightarrow> Some (t, v)
      | Some (t', v') \<Rightarrow> if t' < t then Some (t', v') else Some (t, v))"

definition syncBlockChain :: "Context \<Rightarrow> middleware \<Rightarrow> world \<Rightarrow> (error option \<times> world) option" where
  "syncBlockChain ctx mw w =
     (let run = SyncBlockChain mw (calls w) True;
          w0 = w\<lparr>calls := calls w @ [CSyncBlockChain True]\<rparr>
      in case first_send (sync_sends run) of
           None \<Rightarrow>
             (case select_first ctx (coin w) (clock w) None of
                Some (CtxDone, t) \<Rightarrow> Some (Some (reason ctx), w0\<lparr>clock := t\<rparr>)
              | _ \<Rightarrow> None)
         | Some (d, err) \<Rightarrow>
             (case select_first ctx (coin w) (clock w) (Some (clock w + d)) of
                None \<Rightarrow> None
              | Some (CtxDone, t) \<Rightarrow> Some (Some (reason ctx), w0\<lparr>clock := t\<rparr>)
              | Some (TaskDone, t) \<Rightarrow> Some (err, w0\<lparr>clock := t\<rparr>)))"

subsection \<open>createWallet\<close>

definition backupPrompt :: string where
  "backupPrompt = ''Enter '' @ [dquote] @ ''OK'' @ [dquote]
     @ '' to continue. This assumes you have stored the seed in a safe and secure location''"

definition createWallet :: "Context \<Rightarrow> middleware \<Rightarrow> world \<Rightarrow> (error option \<times> world) option" where
  "createWallet ctx mw w = do {
     (walletExists, w1) \<leftarrow> call_mw (WalletExists mw (calls w)) CWalletExists w;
     case walletExists of
       Inl err \<Rightarrow> Some (Some err, w1)
     | Inr True \<Rightarrow> Some (Some (ErrorString ''wallet already exists''), w1)
     | Inr False \<Rightarrow> do {
         (r1, w2) \<leftarrow> RequestInputSecure ''Enter private passphrase for new wallet'' EmptyValidator w1;
         case r1 of
           Inl err \<Rightarrow> Some (Some err, w2)
         | Inr passphrase \<Rightarrow> do {
             (r2, w3) \<leftarrow> RequestInputSecure ''Confirm passphrase'' EmptyValidator w2;
             case r2 of
               Inl err \<Rightarrow> Some (Some err, w3)
             | Inr confirmPassphrase \<Rightarrow>
                 if passphrase \<noteq> confirmPassphrase
                 then Some (Some (ErrorString ''passphrases do not match''), w3)
                 else do {
                   (r3, w4) \<leftarrow> call_mw (GenerateNewWalletSeed mw (calls w3)) CGenerateNewWalletSeed w3;
                   case r3 of
                     Inl err \<Rightarrow> Some (Some err, w4)
                   | Inr seed \<Rightarrow> do {
                       (r4, w5) \<leftarrow> RequestInput backupPrompt backupValidator (displayWalletSeed seed w4);
                       case r4 of
                         Inl err \<Rightarrow> Some (Some err, w5)
                       | Inr ok \<Rightarrow> do {
                           (r5, w6) \<leftarrow> call_mw (CreateWallet mw (calls w5) passphrase seed)
                                         (CCreateWallet passphrase seed) w5;
                           case r5 of
                             Some err \<Rightarrow> Some (Some err, w6)
                           | None \<Rightarrow> syncBlockChain ctx mw w6
                         }
                     }
                 }
           }
       }
   }"

subsection \<open>attemptToCreateWallet\<close>

definition createWalletPrompt :: string where
  "createWalletPrompt = ''No wallet found. Would you like to create one now? [y/N]''"

definition UserDeclined :: error where
  "UserDeclined = ErrorString (''Wallet doesn'' @ [CHR 0x27] @ ''t exist'')"

definition attemptToCreateWallet ::
  "Context \<Rightarrow> middleware \<Rightarrow> world \<Rightarrow> (error option \<times> world) option" where
  "attemptToCreateWallet ctx mw w = do {
     (r, w1) \<leftarrow> RequestInput createWalletPrompt validateUserResponse w;
     case r of
       Inl err \<Rightarrow> Some (Some err, w1)
     | Inr userResponse \<Rightarrow>
         if userResponse = [] \<or> EqualFold ''N'' userResponse
         then Some (Some UserDeclined, w1)
         else createWallet ctx mw w1
   }"

subsection \<open>openWallet\<close>

text \<open>
  The goroutine of \<^verbatim>\<open>openWallet\<close>: the calls it makes, each with the delay after which
  it starts, the delay after which it is ready to send on \<^verbatim>\<open>loadWalletDone\<close> (if ever),
  and the variables \<^verbatim>\<open>err\<close> and \<^verbatim>\<open>noWalletFound\<close> it has written by then. \<^verbatim>\<open>errMsg\<close> is
  only printed.
\<close>

record load_task =
  task_calls :: "(nat \<times> call) list"
  ready_after :: "nat option"
  task_err :: "error option"
  noWalletFound :: bool

definition loadWallet :: "middleware \<Rightarrow> call list \<Rightarrow> load_task" where
  "loadWallet mw tr =
     (case WalletExists mw tr of
        Stall \<Rightarrow>
          \<lparr>task_calls = [(0, CWalletExists)], ready_after = None,
           task_err = None, noWalletFound = False\<rparr>
      | Reply d1 (Inl err) \<Rightarrow>
          \<lparr>task_calls = [(0, CWalletExists)], ready_after = Some d1,
           task_err = Some err, noWalletFound = False\<rparr>
      | Reply d1 (Inr False) \<Rightarrow>
          \<lparr>task_calls = [(0, CWalletExists)], ready_after = Some d1,
           task_err = None, noWalletFound = True\<rparr>
      | Reply d1 (Inr True) \<Rightarrow>
          (case OpenWallet mw (tr @ [CWalletExists]) of
             Stall \<Rightarrow>
               \<lparr>task_calls = [(0, CWalletExists), (d1, COpenWallet)], ready_after = None,
                task_err = None, noWalletFound = False\<rparr>
           | Reply d2 err \<Rightarrow>
               \<lparr>task_calls = [(0, CWalletExists), (d1, COpenWallet)],
                ready_after = Some (d1 + d2), task_err = err, noWalletFound = False\<rparr>))"

text \<open>The calls of the goroutine that have started by time \<open>t\<close>.\<close>

definition started_by :: "nat \<Rightarrow> nat \<Rightarrow> (nat \<times> call) list \<Rightarrow> call list" where
  "started_by now t cs = map snd (filter (\<lambda>(d, c). now + d \<le> t) cs)"

definition openWallet :: "Context \<Rightarrow> middleware \<Rightarrow> world \<Rightarrow> (error option \<times> world) option" where
  "openWallet ctx mw w =
     (let task = loadWallet mw (calls w) in
      case select_first ctx (coin w) (clock w)
             (map_option (\<lambda>d. clock w + d) (ready_after task)) of
        None \<Rightarrow> None
      | Some (CtxDone, t) \<Rightarrow>
          Some (Some (reason ctx),
                w\<lparr>clock := t, calls := calls w @ started_by (clock w) t (task_calls task)\<rparr>)
      | Some (TaskDone, t) \<Rightarrow>
          (let w1 = w\<lparr>clock := t, calls := calls w @ map snd (task_calls task)\<rparr> in
           if noWalletFound task then attemptToCreateWallet ctx mw w1
           else Some (task_err task, w1)))"

section \<open>The process: main and its two helper goroutines\<close>

text \<open>
  \<^verbatim>\<open>main\<close> starts the signal listener (\<^verbatim>\<open>listenForShutdown\<close>) and \<^verbatim>\<open>handleShutdown\<close> as
  goroutines and then registers the hooks, connects to the wallet and runs one mode. The
  three goroutines share the package variables \<^verbatim>\<open>beginShutdown\<close> (a channel without
  buffer), \<^verbatim>\<open>shutdownOps\<close> and \<^verbatim>\<open>opError\<close>. The model is the interleaving of their
  statements: a state holds the position of each goroutine and the shared variables, and
  an action is one statement of one goroutine or an event of the environment.
\<close>

datatype run_mode = HTTPMode | DesktopMode | CliMode

datatype hook = CancelCtx | CloseWallet

datatype signal = SIGINT | SIGTERM

datatype main_pc =
    MRegisterCancel | MConnect | MRegisterClose | MDispatch | MRunning | MSend | MWait
  | MReturned

datatype listener_pc = LFirst | LSend | LLoop

datatype handler_pc = HAdd | HReceive | HRange | HLoop | HCheck | HReturned

text \<open>
  \<open>pending\<close> is the buffer (of size one) of \<^verbatim>\<open>interruptChannel\<close>; \<open>ranged\<close> is the slice
  the \<^verbatim>\<open>range\<close> statement of \<^verbatim>\<open>handleShutdown\<close> has evaluated, \<open>todo\<close> what is left of
  it, \<open>run_ops\<close> the hooks called so far; \<open>received\<close> counts the values received from
  \<^verbatim>\<open>beginShutdown\<close>; \<open>wg\<close> is the counter of the wait group. A hook is a \<^verbatim>\<open>func()\<close>: it
  returns nothing, so a hook that fails (\<open>fails\<close>) only lacks its effect.
\<close>

record proc =
  mode :: run_mode
  args :: "string list"
  fails :: "hook \<Rightarrow> bool"
  mpc :: main_pc
  lpc :: listener_pc
  hpc :: handler_pc
  pending :: "signal option"
  shutdownOps :: "hook list"
  ranged :: "hook list"
  todo :: "hook list"
  run_ops :: "hook list"
  received :: nat
  opError :: "error option"
  cancelled :: bool
  closed :: bool
  wg :: nat
  printed :: "string list"
  exit_status :: "nat option"

definition init :: "run_mode \<Rightarrow> string list \<Rightarrow> (hook \<Rightarrow> bool) \<Rightarrow> proc" where
  "init m a f =
     \<lparr>mode = m, args = a, fails = f,
      mpc = MRegisterCancel, lpc = LFirst, hpc = HAdd,
      pending = None, shutdownOps = [], ranged = [], todo = [], run_ops = [],
      received = 0, opError = None, cancelled = False, closed = False, wg = 0,
      printed = [], exit_status = None\<rparr>"

datatype action =
    Signal signal
  | ListenerStep
  | SendFromListener
  | HandlerStep
  | MainStep
  | ConnectReturns "error option"
  | ModeReturns "error option"
  | SendFromMain

definition signal_name :: "signal \<Rightarrow> string" where
  "signal_name sg = (case sg of SIGINT \<Rightarrow> ''interrupt'' | SIGTERM \<Rightarrow> ''terminated'')"

fun Join :: "string list \<Rightarrow> string \<Rightarrow> string" where
  "Join [] sep = []"
| "Join [x] sep = x"
| "Join (x # y # ys) sep = x @ sep @ Join (y # ys) sep"

text \<open>Calling a hook: \<^verbatim>\<open>cancel\<close> cancels the context, \<^verbatim>\<open>CloseWallet\<close> closes the wallet.\<close>

definition call_hook :: "hook \<Rightarrow> proc \<Rightarrow> proc" where
  "call_hook h s =
     (let s1 = s\<lparr>run_ops := run_ops s @ [h]\<rparr> in
      if fails s h then s1
      else (case h of
              CancelCtx \<Rightarrow> s1\<lparr>cancelled := True\<rparr>
            | CloseWallet \<Rightarrow> s1\<lparr>closed := True\<rparr>))"

text \<open>
  \<^verbatim>\<open>listenForShutdown\<close>: a signal is delivered into the buffer of \<^verbatim>\<open>interruptChannel\<close> and
  dropped when the buffer is full. The listener takes the first signal, prints, and then
  sends on \<^verbatim>\<open>beginShutdown\<close>; after that it takes every further signal and prints.
\<close>

definition deliver :: "signal \<Rightarrow> proc \<Rightarrow> proc" where
  "deliver sg s = (case pending s of None \<Rightarrow> s\<lparr>pending := Some sg\<rparr> | Some other \<Rightarrow> s)"

definition listener_step :: "proc \<Rightarrow> proc option" where
  "listener_step s =
     (case (lpc s, pending s) of
        (LFirst, Some sg) \<Rightarrow>
          Some (s\<lparr>pending := None, lpc := LSend,
                  printed := printed s
                    @ ['' Received '' @ signal_name sg @ '' signal. Shutting down...'']\<rparr>)
      | (LLoop, Some sg) \<Rightarrow>
          Some (s\<lparr>pending := None,
                  printed := printed s @ ['' Already shutting down... Please wait'']\<rparr>)
      | _ \<Rightarrow> None)"

text \<open>
  A send on \<^verbatim>\<open>beginShutdown\<close> completes only together with the receive of
  \<^verbatim>\<open>handleShutdown\<close>, which happens once.
\<close>

definition send_from_listener :: "proc \<Rightarrow> proc option" where
  "send_from_listener s =
     (if lpc s = LSend \<and> hpc s = HReceive
      then Some (s\<lparr>lpc := LLoop, hpc := HRange, received := Suc (received s)\<rparr>)
      else None)"

definition send_from_main :: "proc \<Rightarrow> proc option" where
  "send_from_main s =
     (if mpc s = MSend \<and> hpc s = HReceive
      then Some (s\<lparr>mpc := MWait, hpc := HRange, received := Suc (received s)\<rparr>)
      else None)"

text \<open>
  \<^verbatim>\<open>handleShutdown\<close>: \<^verbatim>\<open>wg.Add(1)\<close>; the receive (above); the \<^verbatim>\<open>range\<close> over \<^verbatim>\<open>shutdownOps\<close>,
  which evaluates the slice once; one hook for each step of the loop, and \<^verbatim>\<open>wg.Done()\<close>
  when the loop ends; then the test of \<^verbatim>\<open>opError\<close> with \<^verbatim>\<open>os.Exit(1)\<close>.
\<close>

definition handler_step :: "proc \<Rightarrow> proc option" where
  "handler_step s =
     (case hpc s of
        HAdd \<Rightarrow> Some (s\<lparr>wg := Suc (wg s), hpc := HReceive\<rparr>)
      | HReceive \<Rightarrow> None
      | HRange \<Rightarrow> Some (s\<lparr>ranged := shutdownOps s, todo := shutdownOps s, hpc := HLoop\<rparr>)
      | HLoop \<Rightarrow>
          (case todo s of
             h # rest \<Rightarrow> Some (call_hook h (s\<lparr>todo := rest\<rparr>))
           | [] \<Rightarrow> Some (s\<lparr>wg := wg s - 1, hpc := HCheck\<rparr>))
      | HCheck \<Rightarrow>
          (if opError s \<noteq> None then Some (s\<lparr>exit_status := Some 1\<rparr>)
           else Some (s\<lparr>hpc := HReturned\<rparr>))
      | HReturned \<Rightarrow> None)"

text \<open>
  \<^verbatim>\<open>main\<close> from the creation of the context on. The steps that wait for the environment
  (\<^verbatim>\<open>connectToWallet\<close>, the call of the mode) and the send are separate actions.
\<close>

definition main_step :: "proc \<Rightarrow> proc option" where
  "main_step s =
     (case mpc s of
        MRegisterCancel \<Rightarrow>
          Some (s\<lparr>shutdownOps := shutdownOps s @ [CancelCtx], mpc := MConnect\<rparr>)
      | MRegisterClose \<Rightarrow>
          Some (s\<lparr>shutdownOps := shutdownOps s @ [CloseWallet], mpc := MDispatch\<rparr>)
      | MDispatch \<Rightarrow>
          (if mode s = HTTPMode \<and> args s \<noteq> []
           then Some (s\<lparr>printed := printed s
                          @ [''unexpected command or flag: '' @ Join (args s) '' ''],
                        exit_status := Some 1\<rparr>)
           else if mode s = DesktopMode
           then Some (s\<lparr>printed := printed s @ [''Running in desktop mode''],
                        mpc := MRunning\<rparr>)
           else Some (s\<lparr>mpc := MRunning\<rparr>))
      | MWait \<Rightarrow>
          (if wg s = 0 then Some (s\<lparr>mpc := MReturned, exit_status := Some 0\<rparr>) else None)
      | _ \<Rightarrow> None)"

definition connect_returns :: "error option \<Rightarrow> proc \<Rightarrow> proc option" where
  "connect_returns r s =
     (if mpc s \<noteq> MConnect then None
      else (case r of
              None \<Rightarrow> Some (s\<lparr>mpc := MRegisterClose\<rparr>)
            | Some err \<Rightarrow>
                Some (s\<lparr>printed := printed s
                          @ [''Connect to dcrwallet rpc failed'', Error err],
                        exit_status := Some 1\<rparr>)))"

text \<open>
  The call of the mode returns. \<^verbatim>\<open>web.StartHttpServer\<close> and \<^verbatim>\<open>cli.Run\<close> return an error
  or \<^verbatim>\<open>nil\<close>, \<^verbatim>\<open>enterDesktopMode\<close> returns nothing.
\<close>

definition mode_returns :: "error option \<Rightarrow> proc \<Rightarrow> proc option" where
  "mode_returns r s =
     (if mpc s \<noteq> MRunning then None
      else (case mode s of
              HTTPMode \<Rightarrow>
                Some (s\<lparr>opError := r,
                        mpc := (if r \<noteq> None \<and> \<not> cancelled s then MSend else MWait)\<rparr>)
            | DesktopMode \<Rightarrow> (if r = None then Some (s\<lparr>mpc := MWait\<rparr>) else None)
            | CliMode \<Rightarrow> Some (s\<lparr>opError := r, mpc := MSend\<rparr>)))"

text \<open>One action; \<open>None\<close> when the action cannot happen. An exited process does nothing.\<close>

definition step :: "proc \<Rightarrow> action \<Rightarrow> proc option" where
  "step s a =
     (if exit_status s \<noteq> None then None
      else (case a of
              Signal sg \<Rightarrow> Some (deliver sg s)
            | ListenerStep \<Rightarrow> listener_step s
            | SendFromListener \<Rightarrow> send_from_listener s
            | HandlerStep \<Rightarrow> handler_step s
            | MainStep \<Rightarrow> main_step s
            | ConnectReturns r \<Rightarrow> connect_returns r s
            | ModeReturns r \<Rightarrow> mode_returns r s
            | SendFromMain \<Rightarrow> send_from_main s))"

fun exec :: "proc \<Rightarrow> action list \<Rightarrow> proc option" where
  "exec s [] = Some s"
| "exec s (a # as) = (case step s a of None \<Rightarrow> None | Some s' \<Rightarrow> exec s' as)"

section \<open>Concrete collaborators for the examples\<close>

text \<open>
  A middleware that finds no wallet, generates a seed, creates the wallet and syncs
  without error; a world with given terminal input; a context that is never cancelled.
\<close>

definition mw_demo :: middleware where
  "mw_demo =
     \<lparr>WalletExists = (\<lambda>tr. Reply 1 (Inr False)),
      OpenWallet = (\<lambda>tr. Reply 1 None),
      GenerateNewWalletSeed = (\<lambda>tr. Reply 1 (Inr ''seed words'')),
      CreateWallet = (\<lambda>tr p s. Reply 1 None),
      SyncBlockChain = (\<lambda>tr b. \<lparr>returned = Reply 0 None, ended = Reply 5 None\<rparr>)\<rparr>"

definition world_of :: "input list \<Rightarrow> world" where
  "world_of ins =
     \<lparr>clock = 0, stdin = ins, shown = [], displayed = [], calls = [], coin = False\<rparr>"

definition never :: Context where
  "never = \<lparr>done_at = None, reason = Canceled\<rparr>"

text \<open>
  A middleware whose existence check fails after four ticks, and a context cancelled at a
  given time.
\<close>

definition mw_broken :: middleware where
  "mw_broken =
     mw_demo\<lparr>WalletExists := (\<lambda>tr. Reply 4 (Inl (ErrorString ''wallet db is locked'')))\<rparr>"

definition cancelled_at :: "nat \<Rightarrow> Context" where
  "cancelled_at c = \<lparr>done_at = Some c, reason = Canceled\<rparr>"

text \<open>A middleware whose sync is rejected at once, and one whose sync ends with an error.\<close>

definition mw_no_start :: middleware where
  "mw_no_start =
     mw_demo\<lparr>SyncBlockChain :=
       (\<lambda>tr b. \<lparr>returned = Reply 0 (Some (ErrorString ''no peers'')), ended = Stall\<rparr>)\<rparr>"

definition mw_sync_fails :: middleware where
  "mw_sync_fails =
     mw_demo\<lparr>SyncBlockChain :=
       (\<lambda>tr b. \<lparr>returned = Reply 0 None, ended = Reply 7 (Some (ErrorString ''bad block''))\<rparr>)\<rparr>"

section \<open>The backup acknowledgment as the specification words it\<close>

text \<open>
  The specification accepts an input that equals "OK", without regard to case, after
  trimming white space and "stripping a single pair of surrounding double quotes".
  \<open>strip_quote_pair\<close> and \<open>spec_backup_accepts\<close> follow these words, for the comparison
  with \<open>backupValidator\<close>.
\<close>

definition strip_quote_pair :: "string \<Rightarrow> string" where
  "strip_quote_pair s =
     (if 2 \<le> length s \<and> hd s = dquote \<and> last s = dquote then butlast (tl s) else s)"

definition spec_backup_accepts :: "string \<Rightarrow> bool" where
  "spec_backup_accepts s = EqualFold ''OK'' (strip_quote_pair (TrimSpace s))"

text \<open>The UTF-8 encoding of the Kelvin sign U+212A.\<close>

definition kelvin :: string where
  "kelvin = [CHR 0xE2, CHR 0x84, CHR 0xAA]"

section \<open>Concrete schedules and observations of the process\<close>

text \<open>
  \<open>startup\<close>: \<^verbatim>\<open>handleShutdown\<close> reaches its receive, \<^verbatim>\<open>main\<close> registers both hooks,
  connects and enters the mode. \<open>interrupt\<close>: a first signal arrives, the listener takes
  it and its send is received. \<open>hooks\<close>: the handler evaluates the range, runs the two
  hooks and calls \<^verbatim>\<open>wg.Done()\<close>.
\<close>

definition startup :: "action list" where
  "startup = [HandlerStep, MainStep, ConnectReturns None, MainStep, MainStep]"

definition interrupt :: "action list" where
  "interrupt = [Signal SIGINT, ListenerStep, SendFromListener]"

definition hooks :: "action list" where
  "hooks = [HandlerStep, HandlerStep, HandlerStep, HandlerStep]"

definition no_failure :: "hook \<Rightarrow> bool" where
  "no_failure h = False"

definition cancel_fails :: "hook \<Rightarrow> bool" where
  "cancel_fails h = (h = CancelCtx)"

text \<open>What a state shows of the three goroutines, the hooks, the error and the exit.\<close>

definition view ::
  "proc \<Rightarrow> main_pc \<times> listener_pc \<times> handler_pc \<times> hook list \<times> error option \<times> nat option" where
  "view s = (mpc s, lpc s, hpc s, run_ops s, opError s, exit_status s)"

text \<open>
  The actions of the goroutines that can happen in a state (the return of a call with
  \<^verbatim>\<open>nil\<close> standing for any return). A signal can always arrive.
\<close>

definition goroutine_actions :: "action list" where
  "goroutine_actions =
     [ListenerStep, SendFromListener, HandlerStep, MainStep, ConnectReturns None,
      ModeReturns None, SendFromMain]"

definition can_move :: "proc \<Rightarrow> action list" where
  "can_move s = filter (\<lambda>a. step s a \<noteq> None) goroutine_actions"

section \<open>An invariant of the process\<close>

text \<open>
  What holds in every state the process reaches: the hooks registered are determined by
  the position of \<^verbatim>\<open>main\<close>; the slice the handler ranges over is a prefix of them; the
  hooks run and the hooks left make up that slice; the trigger was received once the
  handler is past its receive and not before; the wait group counts the handler.
\<close>

fun registered :: "main_pc \<Rightarrow> hook list" where
  "registered MRegisterCancel = []"
| "registered MConnect = [CancelCtx]"
| "registered MRegisterClose = [CancelCtx]"
| "registered pc = [CancelCtx, CloseWallet]"

fun before_loop :: "handler_pc \<Rightarrow> bool" where
  "before_loop HAdd = True"
| "before_loop HReceive = True"
| "before_loop HRange = True"
| "before_loop pc = False"

fun after_loop :: "handler_pc \<Rightarrow> bool" where
  "after_loop HCheck = True"
| "after_loop HReturned = True"
| "after_loop pc = False"

fun received_at :: "handler_pc \<Rightarrow> nat" where
  "received_at HAdd = 0"
| "received_at HReceive = 0"
| "received_at pc = 1"

fun wg_at :: "handler_pc \<Rightarrow> nat" where
  "wg_at HReceive = 1"
| "wg_at HRange = 1"
| "wg_at HLoop = 1"
| "wg_at pc = 0"

definition proc_inv :: "proc \<Rightarrow> bool" where
  "proc_inv s =
     (shutdownOps s = registered (mpc s)
      \<and> prefix (ranged s) (shutdownOps s)
      \<and> run_ops s @ todo s = ranged s
      \<and> (before_loop (hpc s) \<longrightarrow> ranged s = [])
      \<and> (after_loop (hpc s) \<longrightarrow> todo s = [])
      \<and> received s = received_at (hpc s)
      \<and> wg s = wg_at (hpc s)
      \<and> (lpc s = LLoop \<longrightarrow> received s = 1))"

section \<open>Properties of the string functions and of the prompter\<close>

lemma fold_orbit_O: "fold_orbit CHR ''O'' = [''O'', ''o'']"
  by (simp add: fold_orbit_def upper_letters_def lower_letters_def fold_extra_def)

lemma fold_orbit_K: "fold_orbit CHR ''K'' = [''K'', ''k'', [CHR 0xE2, CHR 0x84, CHR 0xAA]]"
  by (simp add: fold_orbit_def upper_letters_def lower_letters_def fold_extra_def)

lemma fold_orbit_y: "fold_orbit CHR ''y'' = [''y'', ''Y'']"
  by (simp add: fold_orbit_def upper_letters_def lower_letters_def fold_extra_def)

lemma fold_orbit_N: "fold_orbit CHR ''N'' = [''N'', ''n'']"
  by (simp add: fold_orbit_def upper_letters_def lower_letters_def fold_extra_def)

lemma has_prefix_iff: "has_prefix t e \<longleftrightarrow> (\<exists>r. t = e @ r)"
  unfolding has_prefix_def
  by (metis append_eq_conv_conj append_take_drop_id)

lemma EqualFold_y: "EqualFold ''y'' t \<longleftrightarrow> t = ''y'' \<or> t = ''Y''"
  by (auto simp: fold_orbit_y has_prefix_iff split: option.splits)

lemma EqualFold_N: "EqualFold ''N'' t \<longleftrightarrow> t = ''N'' \<or> t = ''n''"
  by (auto simp: fold_orbit_N has_prefix_iff split: option.splits)

lemma EqualFold_OK:
  "EqualFold ''OK'' t \<longleftrightarrow>
     t = ''OK'' \<or> t = ''Ok'' \<or> t = ''oK'' \<or> t = ''ok''
     \<or> t = ''O'' @ [CHR 0xE2, CHR 0x84, CHR 0xAA] \<or> t = ''o'' @ [CHR 0xE2, CHR 0x84, CHR 0xAA]"
  by (auto simp: fold_orbit_O fold_orbit_K has_prefix_iff split: option.splits)

lemma prompt_loop_Suc:
  "prompt_loop v xs (Suc n) = map_option (\<lambda>(r, rest, k). (r, rest, Suc k)) (prompt_loop v xs n)"
  by (induction v xs n rule: prompt_loop.induct) (auto split: option.splits)

lemma RequestInput_reject:
  assumes "v a \<noteq> None"
  shows "RequestInput msg v (w\<lparr>stdin := Line a # rest\<rparr>)
           = RequestInput msg v (w\<lparr>stdin := rest, shown := shown w @ [msg]\<rparr>)"
  using assms
  by (auto simp: RequestInput_def prompt_loop_Suc[of v rest 0] replicate_append_same
           split: option.splits)

lemma prompt_loop_accepted:
  "prompt_loop v xs n = Some (Inr l, rest, k) \<Longrightarrow> v l = None"
  by (induction v xs n rule: prompt_loop.induct) (auto split: option.splits)

lemma RequestInput_accepted:
  "RequestInput msg v w = Some (Inr l, w') \<Longrightarrow> v l = None"
  by (auto simp: RequestInput_def split: option.splits dest: prompt_loop_accepted)

lemma RequestInput_keeps:
  "RequestInput msg v w = Some (r, w') \<Longrightarrow>
     calls w' = calls w \<and> clock w' = clock w \<and> coin w' = coin w \<and> displayed w' = displayed w"
  by (auto simp: RequestInput_def split: option.splits)

lemmas str_eval =
  backupValidator_def validateUserResponse_def TrimSpace_def Trim_def leading_space_def
  trailing_space_def space_encodings_def has_prefix_def has_suffix_def fold_orbit_def
  upper_letters_def lower_letters_def fold_extra_def dquote_def strip_quote_pair_def
  spec_backup_accepts_def

lemma backupValidator_iff:
  "backupValidator s = None \<longleftrightarrow>
     Trim (TrimSpace s) dquote \<in> {''OK'', ''Ok'', ''oK'', ''ok'', ''O'' @ kelvin, ''o'' @ kelvin}"
  by (simp add: backupValidator_def Let_def EqualFold_OK kelvin_def del: EqualFold.simps)

lemma validateUserResponse_iff:
  "validateUserResponse s = None \<longleftrightarrow>
     Trim (TrimSpace s) dquote \<in> {[], ''y'', ''Y'', ''N'', ''n''}"
  by (auto simp add: validateUserResponse_def Let_def EqualFold_y EqualFold_N
           simp del: EqualFold.simps)

lemma RequestInputSecure_nonempty:
  "RequestInputSecure msg EmptyValidator w = Some (Inr p, w') \<Longrightarrow> p \<noteq> []"
  by (auto simp: RequestInputSecure_def EmptyValidator_def dest!: RequestInput_accepted
           split: if_splits)

lemma RequestInputSecure_Empty:
  "RequestInputSecure msg EmptyValidator w = Some (r, w') \<Longrightarrow>
     calls w' = calls w \<and> (\<forall>p. r = Inr p \<longrightarrow> p \<noteq> [])"
  using RequestInput_keeps RequestInputSecure_nonempty
  by (fastforce simp: RequestInputSecure_def)

section \<open>Properties of the two select statements\<close>

lemma select_first_task:
  assumes "case done_at ctx of None \<Rightarrow> True | Some c \<Rightarrow> t < c"
  shows "select_first ctx pick now (Some t) = Some (TaskDone, t)"
  using assms by (auto simp: select_first_def split: option.splits)

lemma select_first_ctx:
  assumes "done_at ctx = Some c" and "case task of None \<Rightarrow> True | Some t \<Rightarrow> max c now < t"
  shows "select_first ctx pick now task = Some (CtxDone, max c now)"
  using assms by (auto simp: select_first_def split: option.splits)

lemma first_send_sync:
  "first_send (sync_sends run) =
     (case (ended run, returned run) of
        (Reply te e, Reply tr (Some e')) \<Rightarrow> if tr < te then Some (tr, Some e') else Some (te, e)
      | (Reply te e, _) \<Rightarrow> Some (te, e)
      | (Stall, Reply tr (Some e')) \<Rightarrow> Some (tr, Some e')
      | (Stall, _) \<Rightarrow> None)"
  by (auto simp: sync_sends_def split: reply.splits option.splits)

lemma syncBlockChain_calls:
  "syncBlockChain ctx mw w = Some (r, w') \<Longrightarrow> calls w' = calls w @ [CSyncBlockChain True]"
  by (auto simp: syncBlockChain_def Let_def split: option.splits prod.splits winner.splits)

section \<open>Properties of the call trace\<close>

lemma call_mw_calls:
  "call_mw rp c w = Some (v, w') \<Longrightarrow> calls w' = calls w @ [c]"
  by (auto simp: call_mw_def split: reply.splits)

lemma createWallet_trace:
  assumes "createWallet ctx mw w = Some (r, w')"
  shows "\<exists>new. calls w' = calls w @ new \<and> (\<forall>p s. CCreateWallet p s \<in> set new \<longrightarrow> p \<noteq> [])"
  using assms
  unfolding createWallet_def
  by (auto simp: displayWalletSeed_def
           split: Option.bind_splits sum.splits bool.splits if_splits option.splits
           dest!: call_mw_calls RequestInputSecure_Empty syncBlockChain_calls RequestInput_keeps)

lemma attemptToCreateWallet_answer:
  assumes "RequestInput createWalletPrompt validateUserResponse w = Some (Inr a, w1)"
  shows "attemptToCreateWallet ctx mw w =
           (if a = [] \<or> a = ''N'' \<or> a = ''n'' then Some (Some UserDeclined, w1)
            else createWallet ctx mw w1)"
  using assms by (simp add: attemptToCreateWallet_def EqualFold_N del: EqualFold.simps)

section \<open>createWallet: the two passphrases\<close>

text \<open>
  Claim C1. When the wallet does not exist yet and the two passphrase prompts return
  \<open>p1\<close> and \<open>p2\<close> with \<open>p1 \<noteq> p2\<close>, \<^verbatim>\<open>createWallet\<close> returns the error "passphrases do not
  match", and the only middleware call it has made is the existence check: neither
  \<^verbatim>\<open>GenerateNewWalletSeed\<close> nor \<^verbatim>\<open>CreateWallet(passphrase, seed)\<close> is called.
\<close>

theorem createWallet_passphrase_mismatch:
  assumes exists: "WalletExists mw (calls w) = Reply d (Inr False)"
    and first: "RequestInputSecure ''Enter private passphrase for new wallet'' EmptyValidator
                  (w\<lparr>clock := clock w + d, calls := calls w @ [CWalletExists]\<rparr>)
                = Some (Inr p1, w2)"
    and second: "RequestInputSecure ''Confirm passphrase'' EmptyValidator w2 = Some (Inr p2, w3)"
    and differ: "p1 \<noteq> p2"
  shows "createWallet ctx mw w = Some (Some (ErrorString ''passphrases do not match''), w3)
         \<and> calls w3 = calls w @ [CWalletExists]"
proof -
  have "calls w2 = calls w @ [CWalletExists]"
    using first RequestInput_keeps by (fastforce simp: RequestInputSecure_def)
  moreover have "calls w3 = calls w2"
    using second RequestInput_keeps by (fastforce simp: RequestInputSecure_def)
  moreover have "createWallet ctx mw w
                   = Some (Some (ErrorString ''passphrases do not match''), w3)"
    using exists first second differ by (simp add: createWallet_def call_mw_def)
  ultimately show ?thesis by simp
qed

theorem createWallet_passphrase_mismatch_witness:
  "createWallet never mw_demo (world_of [Line ''abc123'', Line ''abc124'', Line ''OK''])
     = Some (Some (ErrorString ''passphrases do not match''),
             \<lparr>clock = 1, stdin = [Line ''OK''],
              shown = [''Enter private passphrase for new wallet'', ''Confirm passphrase''],
              displayed = [], calls = [CWalletExists], coin = False\<rparr>)"
  using createWallet_passphrase_mismatch
    [of mw_demo "world_of [Line ''abc123'', Line ''abc124'', Line ''OK'']" 1
      "''abc123''"
      "\<lparr>clock = 1, stdin = [Line ''abc124'', Line ''OK''],
        shown = [''Enter private passphrase for new wallet''],
        displayed = [], calls = [CWalletExists], coin = False\<rparr>"
      "''abc124''"
      "\<lparr>clock = 1, stdin = [Line ''OK''],
        shown = [''Enter private passphrase for new wallet'', ''Confirm passphrase''],
        displayed = [], calls = [CWalletExists], coin = False\<rparr>"
      never]
  by (simp add: mw_demo_def world_of_def RequestInputSecure_def RequestInput_def
        EmptyValidator_def)

text \<open>
  Claim C9. The validator of both passphrase prompts rejects the empty input, so a secure
  prompt never returns an empty passphrase and asks again after an empty input; and
  whenever \<^verbatim>\<open>createWallet\<close> returns, no call \<^verbatim>\<open>CreateWallet(passphrase, seed)\<close> it has made
  carries an empty passphrase.
\<close>

theorem createWallet_nonempty_passphrase:
  assumes "createWallet ctx mw w = Some (r, w')"
  shows "EmptyValidator [] \<noteq> None
         \<and> (RequestInputSecure msg EmptyValidator v = Some (Inr p, v') \<longrightarrow> p \<noteq> [])
         \<and> RequestInputSecure msg EmptyValidator (v\<lparr>stdin := Line [] # rest\<rparr>)
             = RequestInputSecure msg EmptyValidator
                 (v\<lparr>stdin := rest, shown := shown v @ [msg]\<rparr>)
         \<and> (\<exists>new. calls w' = calls w @ new \<and> CCreateWallet [] seed \<notin> set new)"
proof -
  have 1: "EmptyValidator [] \<noteq> None" by (simp add: EmptyValidator_def)
  have 2: "RequestInputSecure msg EmptyValidator v = Some (Inr p, v') \<longrightarrow> p \<noteq> []"
    using RequestInputSecure_nonempty by blast
  have 3: "RequestInputSecure msg EmptyValidator (v\<lparr>stdin := Line [] # rest\<rparr>)
             = RequestInputSecure msg EmptyValidator
                 (v\<lparr>stdin := rest, shown := shown v @ [msg]\<rparr>)"
    unfolding RequestInputSecure_def using 1 by (rule RequestInput_reject)
  have 4: "\<exists>new. calls w' = calls w @ new \<and> CCreateWallet [] seed \<notin> set new"
    using createWallet_trace[OF assms] by blast
  show ?thesis using 1 2 3 4 by blast
qed

theorem createWallet_nonempty_passphrase_witness:
  "createWallet never mw_demo
       (world_of [Line '''', Line ''abc123'', Line ''abc123'', Line ''no'', Line ''OK''])
     = Some (None,
             \<lparr>clock = 8, stdin = [],
              shown = [''Enter private passphrase for new wallet'',
                       ''Enter private passphrase for new wallet'', ''Confirm passphrase'',
                       backupPrompt, backupPrompt],
              displayed = [''seed words''],
              calls = [CWalletExists, CGenerateNewWalletSeed,
                       CCreateWallet ''abc123'' ''seed words'', CSyncBlockChain True],
              coin = False\<rparr>)
   \<and> (\<exists>new. [CWalletExists, CGenerateNewWalletSeed,
               CCreateWallet ''abc123'' ''seed words'', CSyncBlockChain True] = [] @ new
            \<and> CCreateWallet [] ''seed words'' \<notin> set new)"
proof -
  have v: "backupValidator ''no'' \<noteq> None" "backupValidator ''OK'' = None"
    by (simp_all add: str_eval)
  have run: "createWallet never mw_demo
       (world_of [Line '''', Line ''abc123'', Line ''abc123'', Line ''no'', Line ''OK''])
     = Some (None,
             \<lparr>clock = 8, stdin = [],
              shown = [''Enter private passphrase for new wallet'',
                       ''Enter private passphrase for new wallet'', ''Confirm passphrase'',
                       backupPrompt, backupPrompt],
              displayed = [''seed words''],
              calls = [CWalletExists, CGenerateNewWalletSeed,
                       CCreateWallet ''abc123'' ''seed words'', CSyncBlockChain True],
              coin = False\<rparr>)"
    using v
    by (auto simp add: createWallet_def call_mw_def mw_demo_def world_of_def never_def
          RequestInputSecure_def RequestInput_def EmptyValidator_def displayWalletSeed_def
          syncBlockChain_def sync_sends_def select_first_def split: option.splits)
  show ?thesis
    using createWallet_nonempty_passphrase
            [OF run, of "''p''" "world_of []" "''abc''" "world_of []" "[]" "''seed words''"] run
    by (simp add: world_of_def)
qed

section \<open>createWallet: the backup acknowledgment\<close>

text \<open>
  Claim C4, as stated, fails: \<^verbatim>\<open>strings.Trim\<close> removes every leading and trailing double
  quote, not one pair. The input \<^verbatim>\<open>""OK""\<close> is accepted by \<open>backupValidator\<close>, and it
  does not equal "OK" after one pair of quotes is stripped.
\<close>

theorem backupValidator_double_quotes_counterexample:
  "backupValidator ([dquote, dquote] @ ''OK'' @ [dquote, dquote]) = None
   \<and> \<not> spec_backup_accepts ([dquote, dquote] @ ''OK'' @ [dquote, dquote])"
  by (simp add: str_eval)

text \<open>
  Claim C4, amended. \<open>backupValidator\<close> accepts exactly the inputs that, after trimming
  the surrounding white space and then removing all leading and trailing double quotes,
  equal "OK" under Unicode case folding (\<open>OK\<close>, \<open>Ok\<close>, \<open>oK\<close>, \<open>ok\<close>, and the two spellings
  with the Kelvin sign for the \<open>K\<close>). So "OK", "ok" and the padded and quoted variant are
  accepted, "K", "" and "no" are rejected, and after a rejected input the prompter shows
  the prompt again and reads the next input.
\<close>

theorem backupValidator_accepts:
  "(backupValidator s = None) =
     (Trim (TrimSpace s) dquote \<in> {''OK'', ''Ok'', ''oK'', ''ok'', ''O'' @ kelvin, ''o'' @ kelvin})
   \<and> backupValidator ''OK'' = None
   \<and> backupValidator ''ok'' = None
   \<and> backupValidator (''  '' @ [dquote] @ ''OK'' @ [dquote] @ ''  '') = None
   \<and> backupValidator ''K'' \<noteq> None
   \<and> backupValidator '''' \<noteq> None
   \<and> backupValidator ''no'' \<noteq> None
   \<and> (backupValidator a \<noteq> None \<longrightarrow>
        RequestInput backupPrompt backupValidator (w\<lparr>stdin := Line a # rest\<rparr>)
          = RequestInput backupPrompt backupValidator
              (w\<lparr>stdin := rest, shown := shown w @ [backupPrompt]\<rparr>))"
proof -
  have ex: "backupValidator ''OK'' = None" "backupValidator ''ok'' = None"
    "backupValidator (''  '' @ [dquote] @ ''OK'' @ [dquote] @ ''  '') = None"
    "backupValidator ''K'' \<noteq> None" "backupValidator '''' \<noteq> None"
    "backupValidator ''no'' \<noteq> None"
    by (simp_all add: str_eval)
  show ?thesis
    using backupValidator_iff[of s] ex
      RequestInput_reject[where v=backupValidator and a=a and msg=backupPrompt and w=w
        and rest=rest]
    by blast
qed

theorem backupValidator_accepts_witness:
  "backupValidator ''no'' \<noteq> None
   \<and> RequestInput backupPrompt backupValidator (world_of [Line ''no'', Line ''ok''])
       = Some (Inr ''ok'', (world_of [])\<lparr>shown := [backupPrompt, backupPrompt]\<rparr>)
   \<and> (backupValidator (''O'' @ kelvin) = None)
       = (Trim (TrimSpace (''O'' @ kelvin)) dquote
            \<in> {''OK'', ''Ok'', ''oK'', ''ok'', ''O'' @ kelvin, ''o'' @ kelvin})"
proof -
  have v: "backupValidator ''no'' \<noteq> None" "backupValidator ''ok'' = None"
    by (simp_all add: str_eval)
  have "RequestInput backupPrompt backupValidator
          ((world_of [])\<lparr>stdin := [Line ''ok''], shown := shown (world_of []) @ [backupPrompt]\<rparr>)
        = Some (Inr ''ok'', (world_of [])\<lparr>shown := [backupPrompt, backupPrompt]\<rparr>)"
    using v by (simp add: RequestInput_def world_of_def)
  then show ?thesis
    using backupValidator_accepts
            [where s="''O'' @ kelvin" and a="''no''" and w="world_of []"
               and rest="[Line ''ok'']"] v
    by (simp add: world_of_def)
qed

section \<open>openWallet and attemptToCreateWallet\<close>

text \<open>
  Claim C5, as stated, fails in its last part: an answer other than the empty one, y, Y, N
  and n is not always rejected. The answer \<^verbatim>\<open>"y"\<close>, with its double quotes, is accepted
  by the validator.
\<close>

theorem validateUserResponse_quoted_counterexample:
  "validateUserResponse (dquote # ''y'' @ [dquote]) = None
   \<and> dquote # ''y'' @ [dquote] \<notin> {[], ''y'', ''Y'', ''N'', ''n''}"
  by (simp add: str_eval)

text \<open>
  Claim C5, amended. When the existence check answers that there is no wallet (before the
  context is cancelled) and the prompter returns the answer "", "N" or "n",
  \<^verbatim>\<open>openWallet\<close> returns the error "Wallet doesn't exist" and the existence check is the
  only middleware call made. The validator accepts exactly the answers that, after
  trimming the surrounding white space and then all leading and trailing double quotes,
  are empty, y, Y, N or n; after any other answer the prompt is shown again and the next
  answer is read.
\<close>

theorem openWallet_decline:
  assumes exists: "WalletExists mw (calls w) = Reply d (Inr False)"
    and alive: "case done_at ctx of None \<Rightarrow> True | Some c \<Rightarrow> clock w + d < c"
    and answer: "RequestInput createWalletPrompt validateUserResponse
                   (w\<lparr>clock := clock w + d, calls := calls w @ [CWalletExists]\<rparr>)
                 = Some (Inr a, w')"
    and decline: "a = [] \<or> a = ''N'' \<or> a = ''n''"
  shows "openWallet ctx mw w = Some (Some UserDeclined, w')
         \<and> calls w' = calls w @ [CWalletExists]
         \<and> (validateUserResponse b = None)
             = (Trim (TrimSpace b) dquote \<in> {[], ''y'', ''Y'', ''N'', ''n''})
         \<and> (validateUserResponse b \<noteq> None \<longrightarrow>
              RequestInput createWalletPrompt validateUserResponse (v\<lparr>stdin := Line b # rest\<rparr>)
                = RequestInput createWalletPrompt validateUserResponse
                    (v\<lparr>stdin := rest, shown := shown v @ [createWalletPrompt]\<rparr>))"
proof -
  have task: "loadWallet mw (calls w) =
      \<lparr>task_calls = [(0, CWalletExists)], ready_after = Some d,
       task_err = None, noWalletFound = True\<rparr>"
    using exists by (simp add: loadWallet_def)
  have sel: "select_first ctx (coin w) (clock w) (Some (clock w + d))
               = Some (TaskDone, clock w + d)"
    using alive by (rule select_first_task)
  have "openWallet ctx mw w =
      attemptToCreateWallet ctx mw
        (w\<lparr>clock := clock w + d, calls := calls w @ [CWalletExists]\<rparr>)"
    by (simp add: openWallet_def task sel)
  then have 1: "openWallet ctx mw w = Some (Some UserDeclined, w')"
    using attemptToCreateWallet_answer[OF answer] decline by auto
  have 2: "calls w' = calls w @ [CWalletExists]"
    using RequestInput_keeps[OF answer] by simp
  show ?thesis
    using 1 2 validateUserResponse_iff[of b]
      RequestInput_reject[where v=validateUserResponse and a=b and msg=createWalletPrompt
        and w=v and rest=rest]
    by blast
qed

theorem openWallet_decline_witness:
  "openWallet never mw_demo (world_of [Line ''maybe'', Line ''n''])
     = Some (Some UserDeclined,
             \<lparr>clock = 1, stdin = [], shown = [createWalletPrompt, createWalletPrompt],
              displayed = [], calls = [CWalletExists], coin = False\<rparr>)
   \<and> validateUserResponse ''maybe'' \<noteq> None
   \<and> RequestInput createWalletPrompt validateUserResponse (world_of [Line ''maybe'', Line ''n''])
       = RequestInput createWalletPrompt validateUserResponse
           ((world_of [Line ''n''])\<lparr>shown := [createWalletPrompt]\<rparr>)"
proof -
  have v: "validateUserResponse ''maybe'' \<noteq> None" "validateUserResponse ''n'' = None"
    by (simp_all add: str_eval)
  have ans: "RequestInput createWalletPrompt validateUserResponse
       ((world_of [Line ''maybe'', Line ''n''])
          \<lparr>clock := clock (world_of [Line ''maybe'', Line ''n'']) + 1,
           calls := calls (world_of [Line ''maybe'', Line ''n'']) @ [CWalletExists]\<rparr>)
     = Some (Inr ''n'',
             \<lparr>clock = 1, stdin = [], shown = [createWalletPrompt, createWalletPrompt],
              displayed = [], calls = [CWalletExists], coin = False\<rparr>)"
    using v by (auto simp add: RequestInput_def world_of_def split: option.splits)
  show ?thesis
    using openWallet_decline
            [where mw=mw_demo and w="world_of [Line ''maybe'', Line ''n'']" and d=1
               and ctx=never and a="''n''" and b="''maybe''" and v="world_of []"
               and rest="[Line ''n'']", OF _ _ ans]
          v
    by (simp add: mw_demo_def never_def world_of_def)
qed



text \<open>
  Claim C6. When \<^verbatim>\<open>ctx.Done()\<close> is closed at a time at which the goroutine that checks and
  opens the wallet is not yet ready to report (or it never is), \<^verbatim>\<open>openWallet\<close> returns
  \<^verbatim>\<open>ctx.Err()\<close>, whatever the middleware answers or would have answered, and reads no
  input. (When both become ready at the same moment the Go runtime chooses.)
\<close>

theorem openWallet_cancelled_first:
  assumes cancelled: "done_at ctx = Some c"
    and first: "case ready_after (loadWallet mw (calls w)) of
                  None \<Rightarrow> True | Some d \<Rightarrow> max c (clock w) < clock w + d"
  shows "openWallet ctx mw w =
           Some (Some (reason ctx),
                 w\<lparr>clock := max c (clock w),
                   calls := calls w @ started_by (clock w) (max c (clock w))
                                        (task_calls (loadWallet mw (calls w)))\<rparr>)"
proof -
  have "select_first ctx (coin w) (clock w)
          (map_option (\<lambda>d. clock w + d) (ready_after (loadWallet mw (calls w))))
        = Some (CtxDone, max c (clock w))"
    using cancelled first by (intro select_first_ctx) (auto split: option.splits)
  then show ?thesis by (simp add: openWallet_def Let_def)
qed

theorem openWallet_cancelled_first_witness:
  "openWallet (cancelled_at 2) mw_broken (world_of [Line ''y''])
     = Some (Some Canceled, (world_of [Line ''y''])\<lparr>clock := 2, calls := [CWalletExists]\<rparr>)
   \<and> openWallet never mw_broken (world_of [Line ''y''])
     = Some (Some (ErrorString ''wallet db is locked''),
             (world_of [Line ''y''])\<lparr>clock := 4, calls := [CWalletExists]\<rparr>)"
proof -
  have "openWallet never mw_broken (world_of [Line ''y''])
     = Some (Some (ErrorString ''wallet db is locked''),
             (world_of [Line ''y''])\<lparr>clock := 4, calls := [CWalletExists]\<rparr>)"
    by (simp add: openWallet_def loadWallet_def mw_broken_def mw_demo_def never_def
          world_of_def select_first_def)
  then show ?thesis
    using openWallet_cancelled_first
            [where ctx="cancelled_at 2" and c=2 and mw=mw_broken and w="world_of [Line ''y'']"]
    by (simp add: loadWallet_def mw_broken_def mw_demo_def cancelled_at_def world_of_def
          started_by_def)
qed

section \<open>syncBlockChain\<close>

text \<open>
  Claim C7. With \<open>first_send\<close> the first value sent on \<^verbatim>\<open>syncDone\<close>: (1) when
  \<^verbatim>\<open>ctx.Done()\<close> is closed before any value is sent, \<^verbatim>\<open>syncBlockChain\<close> returns
  \<^verbatim>\<open>ctx.Err()\<close>; (2) when a value is sent before the context is cancelled, it returns that
  value; (3) when both happen at the same moment the runtime chooses between the two;
  (4) the value sent is the argument of \<^verbatim>\<open>SyncEnded\<close> (\<^verbatim>\<open>nil\<close> on success) when the
  middleware call itself returned no error, and (5) the error of the middleware call
  when the sync did not start, through the same channel; (6) with no value and no
  cancellation the function waits forever.
\<close>

theorem syncBlockChain_result:
  "(done_at ctx = Some c \<and>
      (case first_send (sync_sends (SyncBlockChain mw (calls w) True)) of
         None \<Rightarrow> True | Some (d', err') \<Rightarrow> max c (clock w) < clock w + d')
     \<longrightarrow> syncBlockChain ctx mw w
           = Some (Some (reason ctx),
                   w\<lparr>calls := calls w @ [CSyncBlockChain True], clock := max c (clock w)\<rparr>))
   \<and> (first_send (sync_sends (SyncBlockChain mw (calls w) True)) = Some (d, err) \<and>
      (case done_at ctx of None \<Rightarrow> True | Some c' \<Rightarrow> clock w + d < c')
     \<longrightarrow> syncBlockChain ctx mw w
           = Some (err, w\<lparr>calls := calls w @ [CSyncBlockChain True], clock := clock w + d\<rparr>))
   \<and> (first_send (sync_sends (SyncBlockChain mw (calls w) True)) = Some (d, err) \<and>
      done_at ctx = Some c \<and> max c (clock w) = clock w + d
     \<longrightarrow> syncBlockChain ctx mw w
           = Some (if coin w then Some (reason ctx) else err,
                   w\<lparr>calls := calls w @ [CSyncBlockChain True], clock := clock w + d\<rparr>))
   \<and> (ended (SyncBlockChain mw (calls w) True) = Reply d err \<and>
      (returned (SyncBlockChain mw (calls w) True) = Stall
       \<or> (\<exists>tr. returned (SyncBlockChain mw (calls w) True) = Reply tr None))
     \<longrightarrow> first_send (sync_sends (SyncBlockChain mw (calls w) True)) = Some (d, err))
   \<and> (returned (SyncBlockChain mw (calls w) True) = Reply d (Some e) \<and>
      ended (SyncBlockChain mw (calls w) True) = Stall
     \<longrightarrow> first_send (sync_sends (SyncBlockChain mw (calls w) True)) = Some (d, Some e))
   \<and> (done_at ctx = None \<and> first_send (sync_sends (SyncBlockChain mw (calls w) True)) = None
     \<longrightarrow> syncBlockChain ctx mw w = None)"
proof (intro conjI impI)
  let ?run = "SyncBlockChain mw (calls w) True"
  assume a: "done_at ctx = Some c \<and>
     (case first_send (sync_sends ?run) of
        None \<Rightarrow> True | Some (d', err') \<Rightarrow> max c (clock w) < clock w + d')"
  show "syncBlockChain ctx mw w
          = Some (Some (reason ctx),
                  w\<lparr>calls := calls w @ [CSyncBlockChain True], clock := max c (clock w)\<rparr>)"
  proof (cases "first_send (sync_sends ?run)")
    case None
    then show ?thesis using a
      by (simp add: syncBlockChain_def Let_def select_first_def)
  next
    case (Some p)
    obtain d' e' where p: "p = (d', e')" by (cases p)
    have "select_first ctx (coin w) (clock w) (Some (clock w + d'))
            = Some (CtxDone, max c (clock w))"
      using a Some p by (intro select_first_ctx) auto
    then show ?thesis using Some p
      by (simp add: syncBlockChain_def Let_def)
  qed
next
  let ?run = "SyncBlockChain mw (calls w) True"
  assume a: "first_send (sync_sends ?run) = Some (d, err) \<and>
     (case done_at ctx of None \<Rightarrow> True | Some c' \<Rightarrow> clock w + d < c')"
  have "select_first ctx (coin w) (clock w) (Some (clock w + d)) = Some (TaskDone, clock w + d)"
    using a by (intro select_first_task) auto
  then show "syncBlockChain ctx mw w
               = Some (err, w\<lparr>calls := calls w @ [CSyncBlockChain True], clock := clock w + d\<rparr>)"
    using a by (simp add: syncBlockChain_def Let_def)
next
  let ?run = "SyncBlockChain mw (calls w) True"
  assume a: "first_send (sync_sends ?run) = Some (d, err) \<and>
     done_at ctx = Some c \<and> max c (clock w) = clock w + d"
  then have "select_first ctx (coin w) (clock w) (Some (clock w + d))
               = Some (if coin w then CtxDone else TaskDone, clock w + d)"
    by (simp add: select_first_def)
  then show "syncBlockChain ctx mw w
               = Some (if coin w then Some (reason ctx) else err,
                       w\<lparr>calls := calls w @ [CSyncBlockChain True], clock := clock w + d\<rparr>)"
    using a by (simp add: syncBlockChain_def Let_def)
next
  let ?run = "SyncBlockChain mw (calls w) True"
  assume "ended ?run = Reply d err \<and>
          (returned ?run = Stall \<or> (\<exists>tr. returned ?run = Reply tr None))"
  then show "first_send (sync_sends ?run) = Some (d, err)"
    by (auto simp: first_send_sync)
next
  let ?run = "SyncBlockChain mw (calls w) True"
  assume "returned ?run = Reply d (Some e) \<and> ended ?run = Stall"
  then show "first_send (sync_sends ?run) = Some (d, Some e)"
    by (auto simp: first_send_sync)
next
  let ?run = "SyncBlockChain mw (calls w) True"
  assume "done_at ctx = None \<and> first_send (sync_sends ?run) = None"
  then show "syncBlockChain ctx mw w = None"
    by (simp add: syncBlockChain_def Let_def select_first_def)
qed

theorem syncBlockChain_result_witness:
  "syncBlockChain (cancelled_at 3) mw_demo (world_of [])
     = Some (Some Canceled, (world_of [])\<lparr>calls := [CSyncBlockChain True], clock := 3\<rparr>)
   \<and> syncBlockChain never mw_demo (world_of [])
     = Some (None, (world_of [])\<lparr>calls := [CSyncBlockChain True], clock := 5\<rparr>)
   \<and> syncBlockChain never mw_sync_fails (world_of [])
     = Some (Some (ErrorString ''bad block''),
             (world_of [])\<lparr>calls := [CSyncBlockChain True], clock := 7\<rparr>)
   \<and> syncBlockChain never mw_no_start (world_of [])
     = Some (Some (ErrorString ''no peers''),
             (world_of [])\<lparr>calls := [CSyncBlockChain True], clock := 0\<rparr>)"
proof -
  have s1: "first_send (sync_sends (SyncBlockChain mw_demo (calls (world_of [])) True))
              = Some (5, None)"
    by (simp add: mw_demo_def sync_sends_def)
  have s2: "first_send (sync_sends (SyncBlockChain mw_sync_fails (calls (world_of [])) True))
              = Some (7, Some (ErrorString ''bad block''))"
    by (simp add: mw_sync_fails_def mw_demo_def sync_sends_def)
  have s3: "first_send (sync_sends (SyncBlockChain mw_no_start (calls (world_of [])) True))
              = Some (0, Some (ErrorString ''no peers''))"
    by (simp add: mw_no_start_def mw_demo_def sync_sends_def)
  show ?thesis
    using syncBlockChain_result
            [where ctx="cancelled_at 3" and c=3 and mw=mw_demo and w="world_of []"
               and d=5 and err=None]
          syncBlockChain_result
            [where ctx=never and mw=mw_demo and w="world_of []" and d=5 and err=None]
          syncBlockChain_result
            [where ctx=never and mw=mw_sync_fails and w="world_of []" and d=7
               and err="Some (ErrorString ''bad block'')"]
          syncBlockChain_result
            [where ctx=never and mw=mw_no_start and w="world_of []" and d=0
               and err="Some (ErrorString ''no peers'')"]
          s1 s2 s3
    by (simp add: cancelled_at_def never_def world_of_def)
qed

section \<open>The invariant holds in every state the process reaches\<close>

lemma inv_init: "proc_inv (init m a f)"
  by (simp add: proc_inv_def init_def)

lemma inv_deliver: "proc_inv s \<Longrightarrow> proc_inv (deliver sg s)"
  by (cases "pending s") (auto simp: proc_inv_def deliver_def)

lemma inv_listener: "proc_inv s \<Longrightarrow> listener_step s = Some s' \<Longrightarrow> proc_inv s'"
  by (cases "lpc s"; cases "pending s") (auto simp: proc_inv_def listener_step_def)

lemma inv_send_listener: "proc_inv s \<Longrightarrow> send_from_listener s = Some s' \<Longrightarrow> proc_inv s'"
  by (cases "lpc s = LSend \<and> hpc s = HReceive") (auto simp: proc_inv_def send_from_listener_def)

lemma inv_send_main: "proc_inv s \<Longrightarrow> send_from_main s = Some s' \<Longrightarrow> proc_inv s'"
  by (cases "mpc s = MSend \<and> hpc s = HReceive") (auto simp: proc_inv_def send_from_main_def)

lemma inv_handler: "proc_inv s \<Longrightarrow> handler_step s = Some s' \<Longrightarrow> proc_inv s'"
proof (cases "hpc s")
  case HLoop
  assume "proc_inv s" "handler_step s = Some s'"
  then show ?thesis using HLoop
    by (cases "todo s"; cases "fails s (hd (todo s))"; cases "hd (todo s)")
       (auto simp: proc_inv_def handler_step_def call_hook_def Let_def)
next
  case HCheck
  assume "proc_inv s" "handler_step s = Some s'"
  then show ?thesis using HCheck
    by (cases "opError s") (auto simp: proc_inv_def handler_step_def)
qed (auto simp: proc_inv_def handler_step_def)

lemma inv_main: "proc_inv s \<Longrightarrow> main_step s = Some s' \<Longrightarrow> proc_inv s'"
proof (cases "mpc s")
  case MDispatch
  assume "proc_inv s" "main_step s = Some s'"
  then show ?thesis using MDispatch
    unfolding proc_inv_def main_step_def by (auto split: if_splits)
next
  case MWait
  assume "proc_inv s" "main_step s = Some s'"
  then show ?thesis using MWait
    unfolding proc_inv_def main_step_def by (auto split: if_splits)
next
  case MRegisterCancel
  assume "proc_inv s" "main_step s = Some s'"
  then show ?thesis using MRegisterCancel
    unfolding proc_inv_def main_step_def by auto
next
  case MRegisterClose
  assume "proc_inv s" "main_step s = Some s'"
  then show ?thesis using MRegisterClose
    unfolding proc_inv_def main_step_def by (auto simp: prefix_Cons split: list.splits)
qed (auto simp: main_step_def)

lemma inv_connect: "proc_inv s \<Longrightarrow> connect_returns r s = Some s' \<Longrightarrow> proc_inv s'"
  by (cases "mpc s = MConnect"; cases r) (auto simp: proc_inv_def connect_returns_def)

lemma mode_returns_fields:
  assumes "mode_returns r s = Some s'"
  shows "mpc s = MRunning \<and> (mpc s' = MSend \<or> mpc s' = MWait)
         \<and> hpc s' = hpc s \<and> lpc s' = lpc s \<and> shutdownOps s' = shutdownOps s
         \<and> ranged s' = ranged s \<and> todo s' = todo s \<and> run_ops s' = run_ops s
         \<and> received s' = received s \<and> wg s' = wg s \<and> mode s' = mode s
         \<and> exit_status s' = exit_status s"
proof (cases "mode s")
  case HTTPMode
  then show ?thesis using assms
    by (cases "mpc s = MRunning"; cases "r \<noteq> None \<and> \<not> cancelled s")
       (auto simp: mode_returns_def)
next
  case DesktopMode
  then show ?thesis using assms
    by (cases "mpc s = MRunning"; cases "r = None") (auto simp: mode_returns_def)
next
  case CliMode
  then show ?thesis using assms
    by (cases "mpc s = MRunning") (auto simp: mode_returns_def)
qed

lemma inv_mode: "proc_inv s \<Longrightarrow> mode_returns r s = Some s' \<Longrightarrow> proc_inv s'"
  using mode_returns_fields[of r s s'] unfolding proc_inv_def by auto

lemma inv_step: "proc_inv s \<Longrightarrow> step s a = Some s' \<Longrightarrow> proc_inv s'"
  by (cases a; cases "exit_status s")
     (auto simp: step_def
           intro: inv_deliver inv_listener inv_send_listener inv_send_main inv_handler inv_main
                  inv_connect inv_mode)

lemma inv_exec: "proc_inv s \<Longrightarrow> exec s sched = Some s' \<Longrightarrow> proc_inv s'"
  by (induction sched arbitrary: s) (auto split: option.splits intro: inv_step)

lemma inv_reachable: "exec (init m a f) sched = Some s \<Longrightarrow> proc_inv s"
  using inv_exec inv_init by blast





section \<open>Shutdown: hooks, trigger and exit status\<close>

lemma registered_distinct: "distinct (registered pc)"
  by (cases pc) simp_all


lemmas proc_eval =
  init_def step_def deliver_def listener_step_def send_from_listener_def
  send_from_main_def handler_step_def main_step_def connect_returns_def mode_returns_def
  call_hook_def signal_name_def startup_def interrupt_def hooks_def no_failure_def
  cancel_fails_def view_def can_move_def goroutine_actions_def Let_def


lemma step_mode: "step s a = Some s' \<Longrightarrow> mode s' = mode s"
proof (cases a)
  case (Signal sg)
  assume "step s a = Some s'"
  then show ?thesis using Signal
    by (auto simp: step_def deliver_def split: if_splits option.splits)
next
  case ListenerStep
  assume "step s a = Some s'"
  then show ?thesis using ListenerStep
    by (auto simp: step_def listener_step_def split: if_splits listener_pc.splits option.splits)
next
  case SendFromListener
  assume "step s a = Some s'"
  then show ?thesis using SendFromListener
    by (auto simp: step_def send_from_listener_def split: if_splits)
next
  case HandlerStep
  assume "step s a = Some s'"
  then show ?thesis using HandlerStep
    by (auto simp: step_def handler_step_def call_hook_def Let_def
             split: handler_pc.splits list.splits if_splits hook.splits)
next
  case MainStep
  assume "step s a = Some s'"
  then show ?thesis using MainStep
    by (auto simp: step_def main_step_def split: main_pc.splits if_splits)
next
  case (ConnectReturns r)
  assume "step s a = Some s'"
  then show ?thesis using ConnectReturns
    by (auto simp: step_def connect_returns_def split: if_splits option.splits)
next
  case (ModeReturns r)
  assume "step s a = Some s'"
  then show ?thesis using ModeReturns mode_returns_fields[of r s s']
    by (auto simp: step_def split: if_splits)
next
  case SendFromMain
  assume "step s a = Some s'"
  then show ?thesis using SendFromMain
    by (auto simp: step_def send_from_main_def split: if_splits)
qed

lemma exec_mode: "exec s sched = Some s' \<Longrightarrow> mode s' = mode s"
  by (induction sched arbitrary: s) (auto split: option.splits dest: step_mode)

lemma mode_returns_mpc:
  assumes "mpc s = MRunning" "exit_status s = None"
  shows "map_option mpc (step s (ModeReturns r))
           = (case mode s of
                CliMode \<Rightarrow> Some MSend
              | HTTPMode \<Rightarrow> Some (if r \<noteq> None \<and> \<not> cancelled s then MSend else MWait)
              | DesktopMode \<Rightarrow> (if r = None then Some MWait else None))"
  using assms by (cases "mode s") (simp_all add: step_def mode_returns_def)

lemma send_from_main_received:
  assumes "mpc s = MSend" "hpc s = HReceive" "exit_status s = None" "received s = 0"
  shows "map_option (\<lambda>s'. (mpc s', hpc s', received s')) (step s SendFromMain)
           = Some (MWait, HRange, 1)"
  using assms by (simp add: step_def send_from_main_def)

text \<open>
  Claim C3, as stated, fails. In server mode a return of \<^verbatim>\<open>web.StartHttpServer\<close> without
  error sends nothing on \<^verbatim>\<open>beginShutdown\<close>, and the return of desktop mode never does:
  \<^verbatim>\<open>main\<close> then waits in \<^verbatim>\<open>wg.Wait()\<close>, the handler in its receive, no hook has run and no
  goroutine can move. And in command mode, when the interrupt was first, the send of
  \<^verbatim>\<open>main\<close> after \<^verbatim>\<open>cli.Run\<close> finds no receiver: \<^verbatim>\<open>main\<close> stays in the send for ever.
\<close>

theorem mode_return_counterexample:
  "map_option view (exec (init HTTPMode [] no_failure) (startup @ [ModeReturns None]))
     = Some (MWait, LFirst, HReceive, [], None, None)
   \<and> map_option can_move (exec (init HTTPMode [] no_failure) (startup @ [ModeReturns None]))
     = Some []
   \<and> map_option view (exec (init DesktopMode [] no_failure) (startup @ [ModeReturns None]))
     = Some (MWait, LFirst, HReceive, [], None, None)
   \<and> map_option can_move (exec (init DesktopMode [] no_failure) (startup @ [ModeReturns None]))
     = Some []
   \<and> map_option view
        (exec (init CliMode [] no_failure)
           (startup @ interrupt @ hooks @ [HandlerStep, ModeReturns (Some Canceled)]))
     = Some (MSend, LLoop, HReturned, [CancelCtx, CloseWallet], Some Canceled, None)
   \<and> map_option can_move
        (exec (init CliMode [] no_failure)
           (startup @ interrupt @ hooks @ [HandlerStep, ModeReturns (Some Canceled)]))
     = Some []"
  by (simp add: proc_eval)

text \<open>
  Claim C3, amended. In command mode the return of \<^verbatim>\<open>cli.Run\<close>, with or without an error,
  brings \<^verbatim>\<open>main\<close> to its send on \<^verbatim>\<open>beginShutdown\<close>; in server mode the return of
  \<^verbatim>\<open>web.StartHttpServer\<close> does so only when it returned an error and the context is not
  cancelled, and otherwise \<^verbatim>\<open>main\<close> goes on to \<^verbatim>\<open>wg.Wait()\<close>; the return of desktop mode
  sends nothing. A send of \<^verbatim>\<open>main\<close> that finds the handler in its receive is received and
  starts the shutdown. In every run the trigger is received at most once and no hook runs
  twice.
\<close>

theorem shutdown_triggered_once:
  assumes "exec (init m a f) sched = Some s"
  shows "received s \<le> 1
         \<and> distinct (run_ops s)
         \<and> (mpc s = MRunning \<and> exit_status s = None \<longrightarrow>
              map_option mpc (step s (ModeReturns r))
                = (case m of
                     CliMode \<Rightarrow> Some MSend
                   | HTTPMode \<Rightarrow> Some (if r \<noteq> None \<and> \<not> cancelled s then MSend else MWait)
                   | DesktopMode \<Rightarrow> (if r = None then Some MWait else None)))
         \<and> (mpc s = MSend \<and> hpc s = HReceive \<and> exit_status s = None \<longrightarrow>
              map_option (\<lambda>s'. (mpc s', hpc s', received s')) (step s SendFromMain)
                = Some (MWait, HRange, 1))"
proof -
  have inv: "proc_inv s" using assms by (rule inv_reachable)
  have m: "mode s = m" using exec_mode[OF assms] by (simp add: init_def)
  have p: "prefix (run_ops s) (shutdownOps s)"
    using inv unfolding proc_inv_def by (metis prefix_order.trans prefixI)
  have d: "distinct (run_ops s)"
    using p inv registered_distinct[of "mpc s"] unfolding proc_inv_def
    by (metis distinct_append prefixE)
  have r: "received s \<le> 1"
    using inv unfolding proc_inv_def by (cases "hpc s") simp_all
  have r0: "hpc s = HReceive \<longrightarrow> received s = 0"
    using inv unfolding proc_inv_def by simp
  show ?thesis
    using d r r0 m mode_returns_mpc[of s r] send_from_main_received[of s] by blast
qed

theorem shutdown_triggered_once_witness:
  "(\<exists>s. exec (init CliMode [] no_failure) startup = Some s
        \<and> mpc s = MRunning \<and> exit_status s = None
        \<and> map_option mpc (step s (ModeReturns None)) = Some MSend
        \<and> map_option mpc (step s (ModeReturns (Some (ErrorString ''boom'')))) = Some MSend)
   \<and> (\<exists>s. exec (init HTTPMode [] no_failure) startup = Some s
        \<and> mpc s = MRunning \<and> exit_status s = None
        \<and> map_option mpc (step s (ModeReturns None)) = Some MWait
        \<and> map_option mpc (step s (ModeReturns (Some (ErrorString ''boom'')))) = Some MSend)
   \<and> (\<exists>s. exec (init CliMode [] no_failure) (startup @ [ModeReturns None]) = Some s
        \<and> mpc s = MSend \<and> hpc s = HReceive \<and> exit_status s = None
        \<and> map_option (\<lambda>s'. (mpc s', hpc s', received s')) (step s SendFromMain)
            = Some (MWait, HRange, 1))"
proof -
  have "\<exists>s. exec (init CliMode [] no_failure) startup = Some s
        \<and> mpc s = MRunning \<and> exit_status s = None"
    by (simp add: proc_eval)
  then obtain s1 where s1: "exec (init CliMode [] no_failure) startup = Some s1"
    "mpc s1 = MRunning" "exit_status s1 = None"
    by blast
  have "\<exists>s. exec (init HTTPMode [] no_failure) startup = Some s
        \<and> mpc s = MRunning \<and> exit_status s = None \<and> \<not> cancelled s"
    by (simp add: proc_eval)
  then obtain s2 where s2: "exec (init HTTPMode [] no_failure) startup = Some s2"
    "mpc s2 = MRunning" "exit_status s2 = None" "\<not> cancelled s2"
    by blast
  have "\<exists>s. exec (init CliMode [] no_failure) (startup @ [ModeReturns None]) = Some s
        \<and> mpc s = MSend \<and> hpc s = HReceive \<and> exit_status s = None"
    by (simp add: proc_eval)
  then obtain s3 where s3: "exec (init CliMode [] no_failure) (startup @ [ModeReturns None]) = Some s3"
    "mpc s3 = MSend" "hpc s3 = HReceive" "exit_status s3 = None"
    by blast
  have a: "\<exists>s. exec (init CliMode [] no_failure) startup = Some s
        \<and> mpc s = MRunning \<and> exit_status s = None
        \<and> map_option mpc (step s (ModeReturns None)) = Some MSend
        \<and> map_option mpc (step s (ModeReturns (Some (ErrorString ''boom'')))) = Some MSend"
    using shutdown_triggered_once[OF s1(1), of None]
          shutdown_triggered_once[OF s1(1), of "Some (ErrorString ''boom'')"] s1
    by (intro exI[of _ s1]) simp
  have b: "\<exists>s. exec (init HTTPMode [] no_failure) startup = Some s
        \<and> mpc s = MRunning \<and> exit_status s = None
        \<and> map_option mpc (step s (ModeReturns None)) = Some MWait
        \<and> map_option mpc (step s (ModeReturns (Some (ErrorString ''boom'')))) = Some MSend"
    using shutdown_triggered_once[OF s2(1), of None]
          shutdown_triggered_once[OF s2(1), of "Some (ErrorString ''boom'')"] s2
    by (intro exI[of _ s2]) simp
  have c: "\<exists>s. exec (init CliMode [] no_failure) (startup @ [ModeReturns None]) = Some s
        \<and> mpc s = MSend \<and> hpc s = HReceive \<and> exit_status s = None
        \<and> map_option (\<lambda>s'. (mpc s', hpc s', received s')) (step s SendFromMain)
            = Some (MWait, HRange, 1)"
    using shutdown_triggered_once[OF s3(1)] s3
    by (intro exI[of _ s3]) simp
  show ?thesis using a b c by blast
qed

text \<open>
  Claim C8 against the code. \<^verbatim>\<open>handleShutdown\<close> calls \<^verbatim>\<open>wg.Done()\<close> before it tests
  \<^verbatim>\<open>opError\<close>, and \<^verbatim>\<open>main\<close> writes \<^verbatim>\<open>opError\<close> while the handler may already have tested
  it. First run: command mode, \<^verbatim>\<open>cli.Run\<close> returns an error, the hooks run, and \<^verbatim>\<open>main\<close>
  returns from \<^verbatim>\<open>wg.Wait()\<close> before the handler's test: exit status 0 with an error
  recorded. Second run, the same with the handler's test first: exit status 1. Third run:
  server mode, the interrupt is first, the handler finds no error and returns, then the
  server returns an error: exit status 0 with an error recorded.
\<close>

theorem exit_status_after_hooks:
  "map_option view
     (exec (init CliMode [] no_failure)
        (startup @ [ModeReturns (Some (ErrorString ''boom'')), SendFromMain] @ hooks
         @ [MainStep]))
     = Some (MReturned, LFirst, HCheck, [CancelCtx, CloseWallet],
             Some (ErrorString ''boom''), Some 0)
   \<and> map_option view
     (exec (init CliMode [] no_failure)
        (startup @ [ModeReturns (Some (ErrorString ''boom'')), SendFromMain] @ hooks
         @ [HandlerStep]))
     = Some (MWait, LFirst, HCheck, [CancelCtx, CloseWallet],
             Some (ErrorString ''boom''), Some 1)
   \<and> map_option view
     (exec (init HTTPMode [] no_failure)
        (startup @ interrupt @ hooks
         @ [HandlerStep, ModeReturns (Some (ErrorString ''server closed'')), MainStep]))
     = Some (MReturned, LLoop, HReturned, [CancelCtx, CloseWallet],
             Some (ErrorString ''server closed''), Some 0)"
  by (simp add: proc_eval)

end
